theory Spec2Isabelle
  imports Complex_Main
begin

section \<open>Link path definitions of react-d3-graph (module Link/helper)\<close>

text \<open>
  The development embeds the module \<open>Link/helper\<close> (with the constants of
  \<open>Link/const\<close>) and verifies the statements made about
  \<open>buildLinkPathDefinition\<close>.

  Modelling decisions.
  \<^item> A JavaScript number is a \<^typ>\<open>real\<close>: arithmetic, \<open>Math.sqrt\<close>, \<open>Math.sin\<close>,
    \<open>Math.cos\<close> and \<open>Math.atan2\<close> are the exact real functions. Rounding of IEEE
    doubles, \<open>NaN\<close>, the infinities and the sign of zero are abstracted away.
  \<^item> A coordinate object is a record with two numeric fields. Objects with a missing
    or non-numeric \<open>x\<close> or \<open>y\<close> are outside the model.
  \<^item> An optional parameter is an \<open>option\<close>: \<open>None\<close> is JavaScript's
    \<open>undefined\<close>, for which the default of the parameter list is taken.
  \<^item> A template literal is the concatenation of its pieces; the conversion of a number
    to text is \<open>Number_toString\<close> below.
  \<^item> An exception is a value: the function returns \<open>Inl\<close> of the error raised, or
    \<open>Inr\<close> of the text returned.
\<close>

subsection \<open>Data\<close>

record coords =
  xCoord :: real
  yCoord :: real

text \<open>Node identifiers are strings or numbers; a parameter left out is \<open>undefined\<close>.
  Strict equality \<open>===\<close> on these values is equality of the datatype.\<close>

datatype node_id = IdString string | IdNumber real | IdUndefined

text \<open>The commands of the path mini-language that the module writes: \<open>M x,y\<close>,
  \<open>L x,y\<close> and \<open>A rx,ry rotation large-arc,sweep x,y\<close>.\<close>

datatype path_cmd =
    MoveTo real real
  | LineTo real real
  | ArcTo real real real bool bool real real

subsection \<open>Numbers as text\<close>

definition digitChar :: "nat \<Rightarrow> char" where
  "digitChar d = ''0123456789'' ! d"

fun natToString :: "nat \<Rightarrow> string" where
  "natToString n = (if n < 10 then [digitChar n] else natToString (n div 10) @ [digitChar (n mod 10)])"

declare natToString.simps [simp del]

definition intToString :: "int \<Rightarrow> string" where
  "intToString i = (if i < 0 then ''-'' @ natToString (nat (- i)) else natToString (nat i))"

text \<open>
  \<open>Number::toString\<close> of ECMAScript, used by every \<open>${...}\<close> of a template literal.
  An integer of magnitude at most \<open>2^53\<close> is written as its decimal numeral, with a
  leading minus sign when negative. For every other number the text is the shortest
  decimal that reads back as the same double, which has no counterpart on the reals:
  it is the parameter \<open>other\<close>, and no theorem below depends on what it returns.
\<close>

definition Number_toString :: "(real \<Rightarrow> string) \<Rightarrow> real \<Rightarrow> string" where
  "Number_toString other v =
     (if v = of_int \<lfloor>v\<rfloor> \<and> \<bar>v\<bar> \<le> 2 ^ 53 then intToString \<lfloor>v\<rfloor> else other v)"

definition flagText :: "bool \<Rightarrow> string" where
  "flagText b = (if b then ''1'' else ''0'')"

fun cmdText :: "(real \<Rightarrow> string) \<Rightarrow> path_cmd \<Rightarrow> string" where
  "cmdText other (MoveTo px py) =
     ''M'' @ Number_toString other px @ '','' @ Number_toString other py"
| "cmdText other (LineTo px py) =
     ''L'' @ Number_toString other px @ '','' @ Number_toString other py"
| "cmdText other (ArcTo rx ry rot large sweep px py) =
     '' A'' @ Number_toString other rx @ '','' @ Number_toString other ry @ '' ''
       @ Number_toString other rot @ '' '' @ flagText large @ '','' @ flagText sweep @ '' ''
       @ Number_toString other px @ '','' @ Number_toString other py"

definition pathText :: "(real \<Rightarrow> string) \<Rightarrow> path_cmd list \<Rightarrow> string" where
  "pathText other cmds = concat (map (cmdText other) cmds)"

subsection \<open>Constants of Link/const\<close>

definition LINE_TYPES_STRAIGHT :: string where
  "LINE_TYPES_STRAIGHT = ''STRAIGHT''"

definition LINE_TYPES_CURVE_SMOOTH :: string where
  "LINE_TYPES_CURVE_SMOOTH = ''CURVE_SMOOTH''"

definition LINE_TYPES_CURVE_FULL :: string where
  "LINE_TYPES_CURVE_FULL = ''CURVE_FULL''"

text \<open>
  The object \<open>LINE_TYPES\<close> read by key, as in \<open>LINE_TYPES[type]\<close>. Only its own
  properties are modelled; a key that is absent reads as \<open>undefined\<close> (\<open>None\<close>).
  A key that the object inherits (\<open>constructor\<close>, \<open>toString\<close> and the like) reads in
  JavaScript as a function or an object: a truthy value that is not a string and under
  whose text \<open>RADIUS_STRATEGIES\<close> has no property, so \<open>buildLinkPathDefinition\<close> chooses
  the straight strategy for it, as it does in the model, which reads the key as absent.
\<close>

definition LINE_TYPES :: "string \<rightharpoonup> string" where
  "LINE_TYPES = [''STRAIGHT'' \<mapsto> LINE_TYPES_STRAIGHT,
                 ''CURVE_SMOOTH'' \<mapsto> LINE_TYPES_CURVE_SMOOTH,
                 ''CURVE_FULL'' \<mapsto> LINE_TYPES_CURVE_FULL]"

definition LINE_POS_OFFSET :: real where
  "LINE_POS_OFFSET = 3"

text \<open>
  \<open>Link/helper\<close> imports a third name, \<open>SELF_LINK_DIRECTION\<close>, from \<open>./link.const\<close>.
  That module declares and exports \<open>LINE_TYPES\<close> and \<open>LINE_POS_OFFSET\<close> only. The
  package is built with Babel and webpack, under which a name that the module does not
  export is bound all the same and reads as \<open>undefined\<close> (\<open>None\<close>). Reading a member
  of \<open>undefined\<close> raises \<open>TypeError\<close>; reading a member of an object gives the
  property, or \<open>undefined\<close> when the object has none under that key.
\<close>

datatype js_error = TypeError

definition SELF_LINK_DIRECTION :: "(string \<rightharpoonup> string) option" where
  "SELF_LINK_DIRECTION = None"

definition getMember :: "(string \<rightharpoonup> string) option \<Rightarrow> string \<Rightarrow> js_error + string option" where
  "getMember obj key = (case obj of None \<Rightarrow> Inl TypeError | Some props \<Rightarrow> Inr (props key))"

subsection \<open>Radius strategies\<close>

type_synonym radius_fn = "real \<Rightarrow> real \<Rightarrow> real \<Rightarrow> real \<Rightarrow> real"

text \<open>\<open>straightLineRadius\<close> and \<open>fullCurveRadius\<close> declare no parameter; they are called
  with four arguments, which they ignore.\<close>

definition straightLineRadius :: radius_fn where
  "straightLineRadius x1 y1 x2 y2 = 0"

definition smoothCurveRadius :: radius_fn where
  "smoothCurveRadius x1 y1 x2 y2 =
     (let dx = x2 - x1; dy = y2 - y1 in sqrt (dx * dx + dy * dy))"

definition fullCurveRadius :: radius_fn where
  "fullCurveRadius x1 y1 x2 y2 = 1"

definition RADIUS_STRATEGIES :: "string \<rightharpoonup> radius_fn" where
  "RADIUS_STRATEGIES = [LINE_TYPES_STRAIGHT \<mapsto> straightLineRadius,
                        LINE_TYPES_CURVE_SMOOTH \<mapsto> smoothCurveRadius,
                        LINE_TYPES_CURVE_FULL \<mapsto> fullCurveRadius]"

text \<open>\<open>RADIUS_STRATEGIES[type] || RADIUS_STRATEGIES[LINE_TYPES.STRAIGHT]\<close>: a function is
  truthy, so the right operand is taken exactly when the key is absent.\<close>

definition getRadiusStrategy :: "string \<Rightarrow> radius_fn" where
  "getRadiusStrategy type =
     (case RADIUS_STRATEGIES type of
        Some f \<Rightarrow> f
      | None \<Rightarrow> the (RADIUS_STRATEGIES LINE_TYPES_STRAIGHT))"

subsection \<open>Angles\<close>

text \<open>\<open>Math.atan2 y x\<close> on the reals: the angle in \<open>(-\<pi>, \<pi>]\<close> of the point \<open>(x, y)\<close>,
  and \<open>0\<close> at the origin (ECMAScript returns \<open>+0\<close> for \<open>atan2(+0, +0)\<close>).\<close>

definition atan2 :: "real \<Rightarrow> real \<Rightarrow> real" where
  "atan2 y x =
     (if 0 < x then arctan (y / x)
      else if x < 0 then (if 0 \<le> y then arctan (y / x) + pi else arctan (y / x) - pi)
      else if 0 < y then pi / 2
      else if y < 0 then - pi / 2
      else 0)"

definition angleBetweenPoints :: "real \<Rightarrow> real \<Rightarrow> real \<Rightarrow> real \<Rightarrow> real" where
  "angleBetweenPoints x1 y1 x2 y2 =
     (if x1 = x2 then (if y1 > y2 then - pi / 2 else pi / 2)
      else atan2 (y2 - y1) (x2 - x1))"

subsection \<open>buildLinkPathDefinition\<close>

text \<open>
  The function as the source writes it, every template literal spelled out. The first
  argument is the parameter of \<open>Number_toString\<close>. The default of \<open>selfLinkDirection\<close>
  is evaluated when the argument is left out, before the body runs. The \<open>switch\<close>
  evaluates its case labels in order, each one a member of \<open>SELF_LINK_DIRECTION\<close>,
  until one is strictly equal to \<open>selfLinkDirection\<close>.
\<close>

definition buildLinkPathDefinition ::
  "(real \<Rightarrow> string) \<Rightarrow> coords \<Rightarrow> coords \<Rightarrow> string option \<Rightarrow> coords list
     \<Rightarrow> node_id \<Rightarrow> node_id \<Rightarrow> string option \<Rightarrow> js_error + string" where
  "buildLinkPathDefinition other sourceCoords targetCoords typeArg breakPoints
       sourceId targetId selfLinkDirectionArg =
     (case (case selfLinkDirectionArg of
              None \<Rightarrow> getMember SELF_LINK_DIRECTION ''TOP_RIGHT''
            | Some d \<Rightarrow> Inr (Some d)) of
        Inl e \<Rightarrow> Inl e
      | Inr selfLinkDirection \<Rightarrow>
         (let str = Number_toString other;
              type = (case typeArg of None \<Rightarrow> LINE_TYPES_STRAIGHT | Some t \<Rightarrow> t);
              sx = xCoord sourceCoords; sy = yCoord sourceCoords;
              tx = xCoord targetCoords; ty = yCoord targetCoords
          in if sourceId = targetId \<and> sx = tx \<and> sy = ty then
               (case getMember SELF_LINK_DIRECTION ''TOP_LEFT'' of
                  Inl e \<Rightarrow> Inl e
                | Inr topLeft \<Rightarrow>
                   if selfLinkDirection = topLeft then
                     Inr (''M'' @ str sx @ '','' @ str sy @ '' A40,30 45 1,1 ''
                            @ str (tx + 1) @ '','' @ str (ty - 1))
                   else
                     (case getMember SELF_LINK_DIRECTION ''BOTTOM_LEFT'' of
                        Inl e \<Rightarrow> Inl e
                      | Inr bottomLeft \<Rightarrow>
                         if selfLinkDirection = bottomLeft then
                           Inr (''M'' @ str sx @ '','' @ str sy @ '' A40,30 -45 1,1 ''
                                  @ str (tx - 1) @ '','' @ str (ty - 1))
                         else
                           (case getMember SELF_LINK_DIRECTION ''BOTTOM_RIGHT'' of
                              Inl e \<Rightarrow> Inl e
                            | Inr bottomRight \<Rightarrow>
                               if selfLinkDirection = bottomRight then
                                 Inr (''M'' @ str sx @ '','' @ str sy @ '' A40,30 45 1,1 ''
                                        @ str (tx - 1) @ '','' @ str (ty + 1))
                               else
                                 Inr (''M'' @ str sx @ '','' @ str sy @ '' A40,30 -45 1,1 ''
                                        @ str (tx + 1) @ '','' @ str (ty + 1)))))
             else
               (let validType = (case LINE_TYPES type of Some v \<Rightarrow> v | None \<Rightarrow> LINE_TYPES_STRAIGHT);
                    calcRadiusFn = getRadiusStrategy validType;
                    restOfLinkPoints = breakPoints @ [targetCoords];
                    restOfLinkPath = concat (map (\<lambda>i.
                        let p = restOfLinkPoints ! i;
                            prev = (if i > 0 then restOfLinkPoints ! (i - 1) else sourceCoords);
                            offsetsX = LINE_POS_OFFSET *
                              sin (angleBetweenPoints (xCoord prev) (yCoord prev) (xCoord p) (yCoord p));
                            offsetsY = LINE_POS_OFFSET *
                              - cos (angleBetweenPoints (xCoord prev) (yCoord prev) (xCoord p) (yCoord p));
                            sxOffset = xCoord prev + offsetsX;
                            syOffset = yCoord prev + offsetsY;
                            txOffset = xCoord p + offsetsX;
                            tyOffset = yCoord p + offsetsY;
                            radius = calcRadiusFn sxOffset syOffset txOffset tyOffset
                        in '' A'' @ str radius @ '','' @ str radius @ '' 0 0,1 ''
                             @ str offsetsX @ '','' @ str offsetsY)
                      [0..<length restOfLinkPoints]);
                    offsetX = LINE_POS_OFFSET * sin (angleBetweenPoints sx sy tx ty);
                    offsetY = LINE_POS_OFFSET * - cos (angleBetweenPoints sx sy tx ty);
                    sxReal = sx + offsetX;
                    syReal = sy + offsetY;
                    txReal = tx + offsetX;
                    tyReal = ty + offsetY;
                    midX = (txReal - sxReal) * 0.9 + sxReal;
                    midY = (tyReal - syReal) * 0.9 + syReal
                in Inr (''M'' @ str sxReal @ '','' @ str syReal @ ''L'' @ str midX @ '','' @ str midY
                     @ restOfLinkPath))))"

subsection \<open>The commands that the text of a regular link denotes\<close>

text \<open>
  The computation of the branch after the self-link test, with every template literal
  replaced by the command it writes. \<open>linkArcs\<close> is the \<open>map\<close> over
  \<open>restOfLinkPoints\<close>, \<open>linkPath\<close> the whole branch; \<open>buildLinkPathDefinition_text\<close>
  below shows that the text returned in that branch is the text of these commands.
\<close>

definition linkArcs :: "radius_fn \<Rightarrow> coords \<Rightarrow> coords list \<Rightarrow> path_cmd list" where
  "linkArcs calcRadiusFn sourceCoords restOfLinkPoints =
     map (\<lambda>i.
         let p = restOfLinkPoints ! i;
             prev = (if i > 0 then restOfLinkPoints ! (i - 1) else sourceCoords);
             offsetsX = LINE_POS_OFFSET *
               sin (angleBetweenPoints (xCoord prev) (yCoord prev) (xCoord p) (yCoord p));
             offsetsY = LINE_POS_OFFSET *
               - cos (angleBetweenPoints (xCoord prev) (yCoord prev) (xCoord p) (yCoord p));
             sxOffset = xCoord prev + offsetsX;
             syOffset = yCoord prev + offsetsY;
             txOffset = xCoord p + offsetsX;
             tyOffset = yCoord p + offsetsY;
             radius = calcRadiusFn sxOffset syOffset txOffset tyOffset
         in ArcTo radius radius 0 False True offsetsX offsetsY)
       [0..<length restOfLinkPoints]"


definition linkPath :: "coords \<Rightarrow> coords \<Rightarrow> string option \<Rightarrow> coords list \<Rightarrow> path_cmd list" where
  "linkPath sourceCoords targetCoords typeArg breakPoints =
     (let type = (case typeArg of None \<Rightarrow> LINE_TYPES_STRAIGHT | Some t \<Rightarrow> t);
          sx = xCoord sourceCoords; sy = yCoord sourceCoords;
          tx = xCoord targetCoords; ty = yCoord targetCoords;
          validType = (case LINE_TYPES type of Some v \<Rightarrow> v | None \<Rightarrow> LINE_TYPES_STRAIGHT);
          calcRadiusFn = getRadiusStrategy validType;
          restOfLinkPoints = breakPoints @ [targetCoords];
          offsetX = LINE_POS_OFFSET * sin (angleBetweenPoints sx sy tx ty);
          offsetY = LINE_POS_OFFSET * - cos (angleBetweenPoints sx sy tx ty);
          sxReal = sx + offsetX;
          syReal = sy + offsetY;
          txReal = tx + offsetX;
          tyReal = ty + offsetY;
          midX = (txReal - sxReal) * 0.9 + sxReal;
          midY = (tyReal - syReal) * 0.9 + syReal
      in MoveTo sxReal syReal # LineTo midX midY
           # linkArcs calcRadiusFn sourceCoords restOfLinkPoints)"

text \<open>The value of \<open>calcRadiusFn\<close> for a given \<open>type\<close> argument: the default of the
  parameter, the lookup of \<open>validType\<close> and the choice of the strategy.\<close>

definition calcRadiusFnOf :: "string option \<Rightarrow> radius_fn" where
  "calcRadiusFnOf typeArg =
     (let type = (case typeArg of None \<Rightarrow> LINE_TYPES_STRAIGHT | Some t \<Rightarrow> t);
          validType = (case LINE_TYPES type of Some v \<Rightarrow> v | None \<Rightarrow> LINE_TYPES_STRAIGHT)
      in getRadiusStrategy validType)"

text \<open>Readers of a command: the two radii of an arc, and the point a command ends at.\<close>

fun arcRadii :: "path_cmd \<Rightarrow> (real \<times> real) option" where
  "arcRadii (ArcTo rx ry rot large sweep px py) = Some (rx, ry)"
| "arcRadii (MoveTo px py) = None"
| "arcRadii (LineTo px py) = None"

fun cmdEnd :: "path_cmd \<Rightarrow> real \<times> real" where
  "cmdEnd (MoveTo px py) = (px, py)"
| "cmdEnd (LineTo px py) = (px, py)"
| "cmdEnd (ArcTo rx ry rot large sweep px py) = (px, py)"

text \<open>A value for the parameter of \<open>Number_toString\<close>, for evaluating the function at
  concrete inputs.\<close>

definition otherUnknown :: "real \<Rightarrow> string" where
  "otherUnknown v = ''?''"


section \<open>Auxiliary facts\<close>

subsection \<open>Text of numbers and of paths\<close>

lemma natToString_digit: "n < 10 \<Longrightarrow> natToString n = [digitChar n]"
  by (subst natToString.simps) simp

lemma natToString_step:
  "\<not> n < 10 \<Longrightarrow> natToString n = natToString (n div 10) @ [digitChar (n mod 10)]"
  by (subst natToString.simps) simp

lemmas num_text = Number_toString_def intToString_def natToString_digit natToString_step digitChar_def

lemma Number_toString_fixed:
  "Number_toString other 0 = ''0''" "Number_toString other 1 = ''1''"
  by (simp_all add: num_text)

lemmas path_text = pathText_def flagText_def num_text

subsection \<open>The three ways out of the function\<close>

lemma buildLinkPathDefinition_default:
  "buildLinkPathDefinition other s t ty B sid tid None = Inl TypeError"
  by (simp add: buildLinkPathDefinition_def getMember_def SELF_LINK_DIRECTION_def)

lemma buildLinkPathDefinition_self:
  assumes "sid = tid \<and> xCoord s = xCoord t \<and> yCoord s = yCoord t"
  shows "buildLinkPathDefinition other s t ty B sid tid dir = Inl TypeError"
  using assms
  by (cases dir) (simp_all add: buildLinkPathDefinition_def getMember_def SELF_LINK_DIRECTION_def)

lemma buildLinkPathDefinition_text:
  assumes "\<not> (sid = tid \<and> xCoord s = xCoord t \<and> yCoord s = yCoord t)"
  shows "buildLinkPathDefinition other s t ty B sid tid (Some d) = Inr (pathText other (linkPath s t ty B))"
proof -
  have c: "(sid = tid \<and> xCoord s = xCoord t \<and> yCoord s = yCoord t) = False"
    using assms by simp
  show ?thesis
    unfolding buildLinkPathDefinition_def linkPath_def pathText_def linkArcs_def
    by (simp add: c Let_def Number_toString_fixed flagText_def comp_def)
qed

subsection \<open>Radius strategies by line type\<close>

lemma LINE_TYPES_unknown:
  "t \<notin> {''STRAIGHT'', ''CURVE_SMOOTH'', ''CURVE_FULL''} \<Longrightarrow> LINE_TYPES t = None"
  by (simp add: LINE_TYPES_def)

lemma getRadiusStrategy_known:
  "getRadiusStrategy ''STRAIGHT'' = straightLineRadius"
  "getRadiusStrategy ''CURVE_SMOOTH'' = smoothCurveRadius"
  "getRadiusStrategy ''CURVE_FULL'' = fullCurveRadius"
  by (simp_all add: getRadiusStrategy_def RADIUS_STRATEGIES_def LINE_TYPES_STRAIGHT_def
        LINE_TYPES_CURVE_SMOOTH_def LINE_TYPES_CURVE_FULL_def)

lemma calcRadiusFnOf_known:
  "calcRadiusFnOf None = straightLineRadius"
  "calcRadiusFnOf (Some ''STRAIGHT'') = straightLineRadius"
  "calcRadiusFnOf (Some ''CURVE_SMOOTH'') = smoothCurveRadius"
  "calcRadiusFnOf (Some ''CURVE_FULL'') = fullCurveRadius"
  by (simp_all add: calcRadiusFnOf_def LINE_TYPES_def getRadiusStrategy_known LINE_TYPES_STRAIGHT_def
        LINE_TYPES_CURVE_SMOOTH_def LINE_TYPES_CURVE_FULL_def)

lemma calcRadiusFnOf_unknown:
  "t \<notin> {''STRAIGHT'', ''CURVE_SMOOTH'', ''CURVE_FULL''} \<Longrightarrow> calcRadiusFnOf (Some t) = straightLineRadius"
  by (simp add: calcRadiusFnOf_def LINE_TYPES_unknown getRadiusStrategy_known LINE_TYPES_STRAIGHT_def)

subsection \<open>The angle and the normal\<close>

lemma sin_cos_arctan: "sin (arctan u) = u * cos (arctan u)"
  using tan_arctan [of u] cos_arctan_not_zero [of u] by (simp add: tan_def field_simps)

lemma atan2_normal: "sin (atan2 b a) * a = cos (atan2 b a) * b"
proof -
  have "sin (arctan (b / a)) * a = cos (arctan (b / a)) * b" if "a \<noteq> 0"
    using that sin_cos_arctan [of "b / a"] by (simp add: field_simps)
  then show ?thesis by (auto simp add: atan2_def)
qed

lemma angleBetweenPoints_atan2:
  "x1 \<noteq> x2 \<or> y1 \<noteq> y2 \<Longrightarrow> angleBetweenPoints x1 y1 x2 y2 = atan2 (y2 - y1) (x2 - x1)"
  by (auto simp add: angleBetweenPoints_def atan2_def)

lemma angleBetweenPoints_same: "angleBetweenPoints x1 y1 x1 y1 = pi / 2"
  by (simp add: angleBetweenPoints_def)

lemma angleBetweenPoints_normal:
  "sin (angleBetweenPoints x1 y1 x2 y2) * (x2 - x1) = cos (angleBetweenPoints x1 y1 x2 y2) * (y2 - y1)"
proof (cases "x1 = x2 \<and> y1 = y2")
  case True
  then show ?thesis by simp
next
  case False
  then show ?thesis using atan2_normal [of "y2 - y1" "x2 - x1"]
    by (simp add: angleBetweenPoints_atan2)
qed

subsection \<open>The commands of a regular link\<close>

lemma linkArcs_length: "length (linkArcs f s pts) = length pts"
  by (simp add: linkArcs_def)

lemma linkArcs_nth:
  assumes "i < length pts"
  shows "linkArcs f s pts ! i =
    (let p = pts ! i; prev = (if i > 0 then pts ! (i - 1) else s);
         a = angleBetweenPoints (xCoord prev) (yCoord prev) (xCoord p) (yCoord p);
         r = f (xCoord prev + 3 * sin a) (yCoord prev + - 3 * cos a) (xCoord p + 3 * sin a) (yCoord p + - 3 * cos a)
     in ArcTo r r 0 False True (3 * sin a) (- 3 * cos a))"
  using assms by (simp add: linkArcs_def Let_def LINE_POS_OFFSET_def)

lemma linkArcs_straight:
  "linkArcs straightLineRadius s pts =
     map (\<lambda>i. let p = pts ! i; prev = (if i > 0 then pts ! (i - 1) else s);
                  a = angleBetweenPoints (xCoord prev) (yCoord prev) (xCoord p) (yCoord p)
              in ArcTo 0 0 0 False True (3 * sin a) (- 3 * cos a))
       [0..<length pts]"
  by (simp add: linkArcs_def Let_def LINE_POS_OFFSET_def straightLineRadius_def)

lemma linkPath_commands:
  "linkPath s t ty B =
    (let a = angleBetweenPoints (xCoord s) (yCoord s) (xCoord t) (yCoord t);
         ox = 3 * sin a; oy = - 3 * cos a
     in MoveTo (xCoord s + ox) (yCoord s + oy)
        # LineTo (((xCoord t + ox) - (xCoord s + ox)) * 0.9 + (xCoord s + ox))
                 (((yCoord t + oy) - (yCoord s + oy)) * 0.9 + (yCoord s + oy))
        # linkArcs (calcRadiusFnOf ty) s (B @ [t]))"
  by (simp add: linkPath_def Let_def LINE_POS_OFFSET_def calcRadiusFnOf_def)

lemma linkArcs_radii:
  assumes "\<And>x1 y1 x2 y2. f x1 y1 x2 y2 = r"
  shows "\<forall>c \<in> set (linkArcs f s pts). arcRadii c = Some (r, r)"
  using assms by (simp add: linkArcs_def Let_def)

lemma linkArcs_are_arcs: "\<forall>c \<in> set (linkArcs f s pts). arcRadii c \<noteq> None"
  by (simp add: linkArcs_def Let_def)

lemma coords_neq: "s \<noteq> t \<Longrightarrow> \<not> (xCoord s = xCoord t \<and> yCoord s = yCoord t)"
  for s t :: coords
  by (cases s, cases t) simp

section \<open>Self-links\<close>

text \<open>
  Claim C1 requires a self-link to return one of four arc texts, at \<open>(100, 100)\<close> the
  text \<open>M100,100 A40,30 -45 1,1 101,101\<close> for TOP_RIGHT and for the default and
  \<open>M100,100 A40,30 45 1,1 101,99\<close> for TOP_LEFT. The function returns no text for a
  self-link: with the direction left out the default \<open>SELF_LINK_DIRECTION.TOP_RIGHT\<close>
  raises, and with a direction given the first case label
  \<open>SELF_LINK_DIRECTION.TOP_LEFT\<close> raises, because the imported binding is undefined.
\<close>

theorem self_link_raises:
  "buildLinkPathDefinition other \<lparr>xCoord = px, yCoord = py\<rparr> \<lparr>xCoord = px, yCoord = py\<rparr>
        ty B sid sid dir = Inl TypeError
   \<and> buildLinkPathDefinition other \<lparr>xCoord = 100, yCoord = 100\<rparr> \<lparr>xCoord = 100, yCoord = 100\<rparr>
        (Some ''STRAIGHT'') [] (IdString ''a'') (IdString ''a'') (Some ''TOP_RIGHT'') = Inl TypeError
   \<and> buildLinkPathDefinition other \<lparr>xCoord = 100, yCoord = 100\<rparr> \<lparr>xCoord = 100, yCoord = 100\<rparr>
        (Some ''STRAIGHT'') [] (IdString ''a'') (IdString ''a'') None = Inl TypeError
   \<and> buildLinkPathDefinition other \<lparr>xCoord = 100, yCoord = 100\<rparr> \<lparr>xCoord = 100, yCoord = 100\<rparr>
        (Some ''STRAIGHT'') [] (IdString ''a'') (IdString ''a'') (Some ''TOP_LEFT'') = Inl TypeError"
  by (simp add: buildLinkPathDefinition_self)

text \<open>
  Claim C10 requires a self-link with a direction other than TOP_LEFT, BOTTOM_LEFT and
  BOTTOM_RIGHT, or with none, to return the TOP_RIGHT text. For the node \<open>4\<close> at
  \<open>(7, -5)\<close> the function raises with the direction \<open>UPWARDS\<close> as with none: the
  default branch of the \<open>switch\<close> is never reached.
\<close>

theorem self_link_other_direction_raises:
  "buildLinkPathDefinition otherUnknown \<lparr>xCoord = 7, yCoord = - 5\<rparr> \<lparr>xCoord = 7, yCoord = - 5\<rparr>
       (Some ''CURVE_FULL'') [] (IdNumber 4) (IdNumber 4) (Some ''UPWARDS'') = Inl TypeError
   \<and> buildLinkPathDefinition otherUnknown \<lparr>xCoord = 7, yCoord = - 5\<rparr> \<lparr>xCoord = 7, yCoord = - 5\<rparr>
       (Some ''CURVE_FULL'') [] (IdNumber 4) (IdNumber 4) None = Inl TypeError"
  by (simp add: buildLinkPathDefinition_self)

section \<open>The angle of a vertical segment\<close>

text \<open>
  Claim C8. When \<open>x1 = x2\<close>, \<open>angleBetweenPoints\<close> returns \<open>-\<pi>/2\<close> if \<open>y1 > y2\<close> and
  \<open>\<pi>/2\<close> otherwise. If moreover \<open>y1 \<noteq> y2\<close>, that is the value of the general formula
  \<open>atan2 (y2 - y1) (x2 - x1)\<close>. If the two points coincide the branch returns \<open>\<pi>/2\<close>
  where the general formula gives \<open>0\<close>: only there does the branch change the result.
\<close>

theorem vertical_angle_branch:
  assumes "x1 = x2"
  shows "angleBetweenPoints x1 y1 x2 y2 = (if y1 > y2 then - pi / 2 else pi / 2)
    \<and> (y1 \<noteq> y2 \<longrightarrow> angleBetweenPoints x1 y1 x2 y2 = atan2 (y2 - y1) (x2 - x1))
    \<and> (y1 = y2 \<longrightarrow> angleBetweenPoints x1 y1 x2 y2 = pi / 2 \<and> atan2 (y2 - y1) (x2 - x1) = 0)"
  using assms by (auto simp add: angleBetweenPoints_def atan2_def)

theorem vertical_angle_branch_witness:
  "angleBetweenPoints 4 9 4 2 = - pi / 2 \<and> atan2 (2 - 9) (4 - 4) = - pi / 2
   \<and> angleBetweenPoints 4 2 4 9 = pi / 2 \<and> atan2 (9 - 2) (4 - 4) = pi / 2
   \<and> angleBetweenPoints 4 2 4 2 = pi / 2 \<and> atan2 (2 - 2) (4 - 4) = 0"
  using vertical_angle_branch [of 4 4 9 2] vertical_angle_branch [of 4 4 2 9] vertical_angle_branch [of 4 4 2 2] by simp

section \<open>Regular links\<close>

text \<open>A link is regular when the test of the self-link branch fails: the identifiers
  differ, or the coordinates differ. The theorems on the text of a regular link are
  about the calls that pass a direction; the branch itself never reads it.\<close>

text \<open>
  Claim C7. For a regular link with breakpoints \<open>B\<close> the text returned is that of a
  move to the offset source, one line to the point \<open>90%\<close> of the way from the offset
  source to the offset target, and then \<open>length B + 1\<close> commands, each of them an arc.
\<close>

theorem regular_link_path_shape:
  assumes "\<not> (sid = tid \<and> xCoord s = xCoord t \<and> yCoord s = yCoord t)"
  shows "let a = angleBetweenPoints (xCoord s) (yCoord s) (xCoord t) (yCoord t);
             sxReal = xCoord s + 3 * sin a; syReal = yCoord s - 3 * cos a;
             txReal = xCoord t + 3 * sin a; tyReal = yCoord t - 3 * cos a;
             arcs = linkArcs (calcRadiusFnOf ty) s (B @ [t])
         in buildLinkPathDefinition other s t ty B sid tid (Some dir) =
              Inr (pathText other (MoveTo sxReal syReal
                # LineTo (sxReal + 0.9 * (txReal - sxReal)) (syReal + 0.9 * (tyReal - syReal))
                # arcs))
            \<and> length arcs = length B + 1
            \<and> (\<forall>c \<in> set arcs. arcRadii c \<noteq> None)"
  using linkArcs_are_arcs [of "calcRadiusFnOf ty" s "B @ [t]"]
  by (simp add: buildLinkPathDefinition_text [OF assms] linkPath_commands Let_def linkArcs_length
      algebra_simps)

theorem regular_link_path_shape_witness:
  "IdString ''a'' \<noteq> IdString ''b''
   \<and> buildLinkPathDefinition otherUnknown \<lparr>xCoord = 0, yCoord = 0\<rparr> \<lparr>xCoord = 10, yCoord = 0\<rparr>
        None [\<lparr>xCoord = 20, yCoord = 0\<rparr>] (IdString ''a'') (IdString ''b'') (Some ''TOP_RIGHT'')
       = Inr ''M0,-3L9,-3 A0,0 0 0,1 0,-3 A0,0 0 0,1 0,3''
   \<and> length (linkArcs (calcRadiusFnOf None) \<lparr>xCoord = 0, yCoord = 0\<rparr>
        [\<lparr>xCoord = 20, yCoord = 0\<rparr>, \<lparr>xCoord = 10, yCoord = 0\<rparr>]) = 2"
proof -
  have a: "angleBetweenPoints 0 0 10 0 = 0" "angleBetweenPoints 0 0 20 0 = 0"
    "angleBetweenPoints 20 0 10 0 = pi"
    by (simp_all add: angleBetweenPoints_def atan2_def)
  show ?thesis
    using regular_link_path_shape [where sid = "IdString ''a''" and tid = "IdString ''b''"
        and s = "\<lparr>xCoord = 0, yCoord = 0\<rparr>" and t = "\<lparr>xCoord = 10, yCoord = 0\<rparr>"
        and B = "[\<lparr>xCoord = 20, yCoord = 0\<rparr>]" and ty = None and other = otherUnknown
        and dir = "''TOP_RIGHT''"]
    by (simp add: a linkArcs_def LINE_POS_OFFSET_def calcRadiusFnOf_known straightLineRadius_def
        path_text Let_def)
qed

text \<open>
  Claim C3, as amended. For a regular link the offset added to the source (the point of
  the move) and to the target (the point the line heads for) is
  \<open>(3 sin \<theta>, -3 cos \<theta>)\<close>. When the end points are distinct \<open>\<theta>\<close> is
  \<open>atan2 \<Delta>y \<Delta>x\<close> of the vector from source to target; when they coincide \<open>\<theta>\<close>
  is \<open>\<pi>/2\<close>, by the explicit branch of \<open>angleBetweenPoints\<close>. The offset has length
  \<open>3\<close> and is perpendicular to the vector from source to target.
\<close>

theorem link_offset_is_normal:
  assumes "\<not> (sid = tid \<and> xCoord s = xCoord t \<and> yCoord s = yCoord t)"
  shows "let sx = xCoord s; sy = yCoord s; tx = xCoord t; ty = yCoord t;
             \<theta> = (if sx = tx \<and> sy = ty then pi / 2 else atan2 (ty - sy) (tx - sx));
             offsetX = 3 * sin \<theta>; offsetY = - 3 * cos \<theta>;
             sxReal = sx + offsetX; syReal = sy + offsetY;
             txReal = tx + offsetX; tyReal = ty + offsetY
         in linkPath s t typeArg B =
              MoveTo sxReal syReal
              # LineTo ((txReal - sxReal) * 0.9 + sxReal) ((tyReal - syReal) * 0.9 + syReal)
              # linkArcs (calcRadiusFnOf typeArg) s (B @ [t])
          \<and> buildLinkPathDefinition other s t typeArg B sid tid (Some dir)
              = Inr (pathText other (linkPath s t typeArg B))
          \<and> offsetX\<^sup>2 + offsetY\<^sup>2 = 3\<^sup>2
          \<and> offsetX * (tx - sx) + offsetY * (ty - sy) = 0"
proof -
  define \<theta> where "\<theta> = (if xCoord s = xCoord t \<and> yCoord s = yCoord t then pi / 2
     else atan2 (yCoord t - yCoord s) (xCoord t - xCoord s))"
  have ang: "angleBetweenPoints (xCoord s) (yCoord s) (xCoord t) (yCoord t) = \<theta>"
    by (auto simp add: \<theta>_def angleBetweenPoints_same angleBetweenPoints_atan2)
  have len: "(3 * sin \<theta>)\<^sup>2 + (- 3 * cos \<theta>)\<^sup>2 = 3\<^sup>2"
  proof -
    have "(3 * sin \<theta>)\<^sup>2 + (- 3 * cos \<theta>)\<^sup>2 = 9 * (sin \<theta>)\<^sup>2 + 9 * (cos \<theta>)\<^sup>2"
      by (simp add: power_mult_distrib)
    also have "\<dots> = 9 * ((sin \<theta>)\<^sup>2 + (cos \<theta>)\<^sup>2)"
      by (simp only: distrib_left)
    also have "\<dots> = 3\<^sup>2" by simp
    finally show ?thesis .
  qed
  have perp: "3 * sin \<theta> * (xCoord t - xCoord s) + - 3 * cos \<theta> * (yCoord t - yCoord s) = 0"
    using angleBetweenPoints_normal [of "xCoord s" "yCoord s" "xCoord t" "yCoord t"]
    unfolding ang by simp
  have path: "linkPath s t typeArg B =
      MoveTo (xCoord s + 3 * sin \<theta>) (yCoord s + - 3 * cos \<theta>)
      # LineTo (((xCoord t + 3 * sin \<theta>) - (xCoord s + 3 * sin \<theta>)) * 0.9 + (xCoord s + 3 * sin \<theta>))
               (((yCoord t + - 3 * cos \<theta>) - (yCoord s + - 3 * cos \<theta>)) * 0.9 + (yCoord s + - 3 * cos \<theta>))
      # linkArcs (calcRadiusFnOf typeArg) s (B @ [t])"
    unfolding linkPath_commands ang by (simp add: Let_def)
  have tie: "buildLinkPathDefinition other s t typeArg B sid tid (Some dir)
      = Inr (pathText other (linkPath s t typeArg B))"
    by (rule buildLinkPathDefinition_text [OF assms])
  show ?thesis
    unfolding Let_def \<theta>_def [symmetric] by (intro conjI path tie len perp)
qed

theorem link_offset_is_normal_witness:
  "IdString ''a'' \<noteq> IdString ''b''
   \<and> linkPath \<lparr>xCoord = 0, yCoord = 0\<rparr> \<lparr>xCoord = 0, yCoord = 10\<rparr> None []
       = [MoveTo 3 0, LineTo 3 9, ArcTo 0 0 0 False True 3 0]
   \<and> buildLinkPathDefinition otherUnknown \<lparr>xCoord = 0, yCoord = 0\<rparr> \<lparr>xCoord = 0, yCoord = 10\<rparr> None []
        (IdString ''a'') (IdString ''b'') (Some ''TOP_RIGHT'')
       = Inr ''M3,0L3,9 A0,0 0 0,1 3,0''"
proof -
  have a: "angleBetweenPoints 0 0 0 10 = pi / 2"
    by (simp add: angleBetweenPoints_def)
  have p: "linkPath \<lparr>xCoord = 0, yCoord = 0\<rparr> \<lparr>xCoord = 0, yCoord = 10\<rparr> None []
       = [MoveTo 3 0, LineTo 3 9, ArcTo 0 0 0 False True 3 0]"
    and t: "buildLinkPathDefinition otherUnknown \<lparr>xCoord = 0, yCoord = 0\<rparr> \<lparr>xCoord = 0, yCoord = 10\<rparr> None []
        (IdString ''a'') (IdString ''b'') (Some ''TOP_RIGHT'')
       = Inr (pathText otherUnknown (linkPath \<lparr>xCoord = 0, yCoord = 0\<rparr> \<lparr>xCoord = 0, yCoord = 10\<rparr> None []))"
    using link_offset_is_normal [where sid = "IdString ''a''" and tid = "IdString ''b''"
        and s = "\<lparr>xCoord = 0, yCoord = 0\<rparr>" and t = "\<lparr>xCoord = 0, yCoord = 10\<rparr>"
        and typeArg = None and B = "[]" and dir = "''TOP_RIGHT''" and other = otherUnknown]
    by (simp_all add: Let_def atan2_def linkArcs_def a LINE_POS_OFFSET_def calcRadiusFnOf_known
        straightLineRadius_def)
  show ?thesis unfolding t p by (simp add: path_text)
qed

text \<open>
  Claim C3 as stated takes \<open>\<theta> = atan2 \<Delta>y \<Delta>x\<close> for every regular link. Two nodes
  with different identifiers at the same point \<open>(0, 0)\<close> form a regular link, for which
  \<open>atan2 0 0 = 0\<close> would put the move at \<open>(0, -3)\<close>; the function puts it at \<open>(3, 0)\<close>.
\<close>

theorem link_offset_coincident_counterexample:
  "IdString ''a'' \<noteq> IdString ''b''
   \<and> buildLinkPathDefinition otherUnknown \<lparr>xCoord = 0, yCoord = 0\<rparr> \<lparr>xCoord = 0, yCoord = 0\<rparr> None []
        (IdString ''a'') (IdString ''b'') (Some ''TOP_RIGHT'')
       = Inr ''M3,0L3,0 A0,0 0 0,1 3,0''
   \<and> hd (linkPath \<lparr>xCoord = 0, yCoord = 0\<rparr> \<lparr>xCoord = 0, yCoord = 0\<rparr> None []) = MoveTo 3 0
   \<and> hd (linkPath \<lparr>xCoord = 0, yCoord = 0\<rparr> \<lparr>xCoord = 0, yCoord = 0\<rparr> None [])
       \<noteq> MoveTo (0 + 3 * sin (atan2 (0 - 0) (0 - 0))) (0 - 3 * cos (atan2 (0 - 0) (0 - 0)))"
proof -
  have p: "linkPath \<lparr>xCoord = 0, yCoord = 0\<rparr> \<lparr>xCoord = 0, yCoord = 0\<rparr> None []
      = [MoveTo 3 0, LineTo 3 0, ArcTo 0 0 0 False True 3 0]"
    by (simp add: linkPath_commands angleBetweenPoints_same linkArcs_def LINE_POS_OFFSET_def
        calcRadiusFnOf_known straightLineRadius_def)
  show ?thesis
    by (simp add: buildLinkPathDefinition_text p atan2_def path_text)
qed

text \<open>
  Claim C4. For the line type CURVE_SMOOTH, the arc written for the segment number
  \<open>i\<close> of a regular link (command \<open>i + 2\<close> of the path) has both radii equal to the
  Euclidean distance between the offset end points of that segment, the points given
  to \<open>smoothCurveRadius\<close>.
\<close>

theorem smooth_curve_radius_is_distance:
  assumes "\<not> (sid = tid \<and> xCoord s = xCoord t \<and> yCoord s = yCoord t)"
    and "i < length B + 1"
  shows "let pts = B @ [t]; p = pts ! i; prev = (if i > 0 then pts ! (i - 1) else s);
             a = angleBetweenPoints (xCoord prev) (yCoord prev) (xCoord p) (yCoord p);
             x1 = xCoord prev + 3 * sin a; y1 = yCoord prev - 3 * cos a;
             x2 = xCoord p + 3 * sin a; y2 = yCoord p - 3 * cos a;
             d = sqrt ((x2 - x1)\<^sup>2 + (y2 - y1)\<^sup>2)
         in linkPath s t (Some LINE_TYPES_CURVE_SMOOTH) B ! (i + 2)
              = ArcTo d d 0 False True (3 * sin a) (- 3 * cos a)
            \<and> smoothCurveRadius x1 y1 x2 y2 = d
            \<and> buildLinkPathDefinition other s t (Some LINE_TYPES_CURVE_SMOOTH) B sid tid (Some dir)
              = Inr (pathText other (linkPath s t (Some LINE_TYPES_CURVE_SMOOTH) B))"
proof -
  have i: "i < length (B @ [t])" using assms(2) by simp
  show ?thesis
    using linkArcs_nth [OF i, of smoothCurveRadius s]
    by (simp add: buildLinkPathDefinition_text [OF assms(1)] linkPath_commands Let_def
        calcRadiusFnOf_known LINE_TYPES_CURVE_SMOOTH_def smoothCurveRadius_def power2_eq_square)
qed

theorem smooth_curve_radius_is_distance_witness:
  "IdString ''a'' \<noteq> IdString ''b'' \<and> (1::nat) < length [\<lparr>xCoord = 0, yCoord = 4\<rparr>] + 1
   \<and> linkPath \<lparr>xCoord = 0, yCoord = 0\<rparr> \<lparr>xCoord = 7, yCoord = 4\<rparr> (Some LINE_TYPES_CURVE_SMOOTH)
        [\<lparr>xCoord = 0, yCoord = 4\<rparr>] ! 3
       = ArcTo 7 7 0 False True 0 (- 3)
   \<and> smoothCurveRadius 0 1 7 1 = 7"
proof -
  have a: "angleBetweenPoints 0 4 7 4 = 0"
    by (simp add: angleBetweenPoints_def atan2_def)
  have r: "sqrt 49 = 7"
    by (rule real_sqrt_unique) simp_all
  show ?thesis
    using smooth_curve_radius_is_distance [where sid = "IdString ''a''" and tid = "IdString ''b''"
        and s = "\<lparr>xCoord = 0, yCoord = 0\<rparr>" and t = "\<lparr>xCoord = 7, yCoord = 4\<rparr>"
        and B = "[\<lparr>xCoord = 0, yCoord = 4\<rparr>]" and i = 1 and other = otherUnknown
        and dir = "''TOP_RIGHT''"]
    by (simp add: a r Let_def numeral_3_eq_3)
qed

text \<open>
  Claim C5. For two distinct end points and the line type CURVE_FULL, every arc of the
  path has both radii equal to \<open>1\<close>, whatever the end points and the breakpoints are.
\<close>

theorem full_curve_radius_is_one:
  assumes "s \<noteq> t"
  shows "let a = angleBetweenPoints (xCoord s) (yCoord s) (xCoord t) (yCoord t);
             sxReal = xCoord s + 3 * sin a; syReal = yCoord s - 3 * cos a;
             txReal = xCoord t + 3 * sin a; tyReal = yCoord t - 3 * cos a;
             arcs = linkArcs fullCurveRadius s (B @ [t])
         in buildLinkPathDefinition other s t (Some LINE_TYPES_CURVE_FULL) B sid tid (Some dir) =
              Inr (pathText other (MoveTo sxReal syReal
                # LineTo (sxReal + 0.9 * (txReal - sxReal)) (syReal + 0.9 * (tyReal - syReal))
                # arcs))
            \<and> length arcs = length B + 1
            \<and> (\<forall>c \<in> set arcs. arcRadii c = Some (1, 1))"
proof -
  have reg: "\<not> (sid = tid \<and> xCoord s = xCoord t \<and> yCoord s = yCoord t)"
    using coords_neq [OF assms] by simp
  show ?thesis
    using linkArcs_radii [of fullCurveRadius 1 s "B @ [t]"]
    by (simp add: buildLinkPathDefinition_text [OF reg] linkPath_commands Let_def linkArcs_length
        algebra_simps calcRadiusFnOf_known LINE_TYPES_CURVE_FULL_def fullCurveRadius_def)
qed

theorem full_curve_radius_is_one_witness:
  "\<lparr>xCoord = 0, yCoord = 0\<rparr> \<noteq> \<lparr>xCoord = 0, yCoord = 10\<rparr>
   \<and> buildLinkPathDefinition otherUnknown \<lparr>xCoord = 0, yCoord = 0\<rparr> \<lparr>xCoord = 0, yCoord = 10\<rparr>
        (Some LINE_TYPES_CURVE_FULL) [\<lparr>xCoord = 0, yCoord = 50\<rparr>] (IdNumber 1) (IdNumber 1)
        (Some ''TOP_RIGHT'')
       = Inr ''M3,0L3,9 A1,1 0 0,1 3,0 A1,1 0 0,1 -3,0''"
proof -
  have h: "\<lparr>xCoord = 0, yCoord = 0\<rparr> \<noteq> \<lparr>xCoord = 0, yCoord = (10::real)\<rparr>" by simp
  have a: "angleBetweenPoints 0 0 0 10 = pi / 2" "angleBetweenPoints 0 0 0 50 = pi / 2"
    "angleBetweenPoints 0 50 0 10 = - pi / 2"
    by (simp_all add: angleBetweenPoints_def)
  show ?thesis
    using full_curve_radius_is_one [OF h, where B = "[\<lparr>xCoord = 0, yCoord = 50\<rparr>]"
        and sid = "IdNumber 1" and tid = "IdNumber 1" and other = otherUnknown
        and dir = "''TOP_RIGHT''"]
    by (simp add: a linkArcs_def LINE_POS_OFFSET_def fullCurveRadius_def path_text Let_def)
qed

text \<open>
  Claim C6. For a line type that is none of STRAIGHT, CURVE_SMOOTH and CURVE_FULL the
  strategy that lines 115 and 116 select is \<open>straightLineRadius\<close>, and the function
  returns what it returns for STRAIGHT. What that is, on every input: the function
  raises when the direction is left out or the link is a self-link; otherwise it
  returns the text of a move to the offset source, a line to the point \<open>90%\<close> of the
  way to the offset target, and one arc for each breakpoint and for the target, every
  one of them with both radii \<open>0\<close>. No arc of another radius is ever written.
\<close>

theorem unknown_type_falls_back_to_straight:
  assumes "t \<notin> {LINE_TYPES_STRAIGHT, LINE_TYPES_CURVE_SMOOTH, LINE_TYPES_CURVE_FULL}"
  shows "getRadiusStrategy (case LINE_TYPES t of Some v \<Rightarrow> v | None \<Rightarrow> LINE_TYPES_STRAIGHT)
           = straightLineRadius
       \<and> buildLinkPathDefinition other s tg (Some t) B sid tid dir
           = buildLinkPathDefinition other s tg (Some LINE_TYPES_STRAIGHT) B sid tid dir
       \<and> buildLinkPathDefinition other s tg (Some t) B sid tid dir
           = (if dir = None \<or> (sid = tid \<and> xCoord s = xCoord tg \<and> yCoord s = yCoord tg)
              then Inl TypeError
              else let a = angleBetweenPoints (xCoord s) (yCoord s) (xCoord tg) (yCoord tg);
                       sxReal = xCoord s + 3 * sin a; syReal = yCoord s - 3 * cos a;
                       txReal = xCoord tg + 3 * sin a; tyReal = yCoord tg - 3 * cos a;
                       pts = B @ [tg]
                   in Inr (pathText other (MoveTo sxReal syReal
                        # LineTo (sxReal + 0.9 * (txReal - sxReal)) (syReal + 0.9 * (tyReal - syReal))
                        # map (\<lambda>i. let p = pts ! i; prev = (if i > 0 then pts ! (i - 1) else s);
                                     b = angleBetweenPoints (xCoord prev) (yCoord prev) (xCoord p) (yCoord p)
                                 in ArcTo 0 0 0 False True (3 * sin b) (- 3 * cos b))
                            [0..<length B + 1])))"
proof -
  have t: "t \<notin> {''STRAIGHT'', ''CURVE_SMOOTH'', ''CURVE_FULL''}"
    using assms by (simp add: LINE_TYPES_STRAIGHT_def LINE_TYPES_CURVE_SMOOTH_def LINE_TYPES_CURVE_FULL_def)
  have lt: "LINE_TYPES t = None" by (rule LINE_TYPES_unknown [OF t])
  have ls: "LINE_TYPES LINE_TYPES_STRAIGHT = Some LINE_TYPES_STRAIGHT"
    by (simp add: LINE_TYPES_def LINE_TYPES_STRAIGHT_def)
  have g: "getRadiusStrategy (case LINE_TYPES t of Some v \<Rightarrow> v | None \<Rightarrow> LINE_TYPES_STRAIGHT)
      = straightLineRadius"
    by (simp add: lt getRadiusStrategy_known LINE_TYPES_STRAIGHT_def)
  have c: "calcRadiusFnOf (Some t) = straightLineRadius"
    by (rule calcRadiusFnOf_unknown [OF t])
  have p: "linkPath s tg (Some t) B = linkPath s tg (Some LINE_TYPES_STRAIGHT) B"
    by (simp add: linkPath_commands c calcRadiusFnOf_known LINE_TYPES_STRAIGHT_def)
  have e: "buildLinkPathDefinition other s tg (Some t) B sid tid dir
           = buildLinkPathDefinition other s tg (Some LINE_TYPES_STRAIGHT) B sid tid dir"
  proof (cases "sid = tid \<and> xCoord s = xCoord tg \<and> yCoord s = yCoord tg")
    case True
    then show ?thesis by (simp add: buildLinkPathDefinition_self)
  next
    case False
    show ?thesis
    proof (cases dir)
      case None
      then show ?thesis by (simp add: buildLinkPathDefinition_default)
    next
      case (Some d)
      then show ?thesis by (simp add: buildLinkPathDefinition_text [OF False] p)
    qed
  qed
  have f: "buildLinkPathDefinition other s tg (Some t) B sid tid dir
           = (if dir = None \<or> (sid = tid \<and> xCoord s = xCoord tg \<and> yCoord s = yCoord tg)
              then Inl TypeError
              else let a = angleBetweenPoints (xCoord s) (yCoord s) (xCoord tg) (yCoord tg);
                       sxReal = xCoord s + 3 * sin a; syReal = yCoord s - 3 * cos a;
                       txReal = xCoord tg + 3 * sin a; tyReal = yCoord tg - 3 * cos a;
                       pts = B @ [tg]
                   in Inr (pathText other (MoveTo sxReal syReal
                        # LineTo (sxReal + 0.9 * (txReal - sxReal)) (syReal + 0.9 * (tyReal - syReal))
                        # map (\<lambda>i. let p = pts ! i; prev = (if i > 0 then pts ! (i - 1) else s);
                                     b = angleBetweenPoints (xCoord prev) (yCoord prev) (xCoord p) (yCoord p)
                                 in ArcTo 0 0 0 False True (3 * sin b) (- 3 * cos b))
                            [0..<length B + 1])))"
  proof (cases "sid = tid \<and> xCoord s = xCoord tg \<and> yCoord s = yCoord tg")
    case True
    then show ?thesis by (simp add: buildLinkPathDefinition_self)
  next
    case False
    show ?thesis
    proof (cases dir)
      case None
      then show ?thesis by (simp add: buildLinkPathDefinition_default)
    next
      case (Some d)
      have "length (B @ [tg]) = length B + 1" by simp
      then show ?thesis
        using False Some
        by (simp add: buildLinkPathDefinition_text [OF False] linkPath_commands c linkArcs_straight
            Let_def algebra_simps del: length_append)
    qed
  qed
  show ?thesis by (intro conjI g e f)
qed

theorem unknown_type_falls_back_to_straight_witness:
  "''ZIGZAG'' \<notin> {LINE_TYPES_STRAIGHT, LINE_TYPES_CURVE_SMOOTH, LINE_TYPES_CURVE_FULL}
   \<and> buildLinkPathDefinition otherUnknown \<lparr>xCoord = 0, yCoord = 0\<rparr> \<lparr>xCoord = 10, yCoord = 0\<rparr>
        (Some ''ZIGZAG'') [\<lparr>xCoord = 20, yCoord = 0\<rparr>] (IdString ''a'') (IdString ''b'')
        (Some ''TOP_RIGHT'')
       = Inr ''M0,-3L9,-3 A0,0 0 0,1 0,-3 A0,0 0 0,1 0,3''
   \<and> buildLinkPathDefinition otherUnknown \<lparr>xCoord = 0, yCoord = 0\<rparr> \<lparr>xCoord = 10, yCoord = 0\<rparr>
        (Some LINE_TYPES_STRAIGHT) [\<lparr>xCoord = 20, yCoord = 0\<rparr>] (IdString ''a'') (IdString ''b'')
        (Some ''TOP_RIGHT'')
       = Inr ''M0,-3L9,-3 A0,0 0 0,1 0,-3 A0,0 0 0,1 0,3''"
proof -
  have h: "''ZIGZAG'' \<notin> {LINE_TYPES_STRAIGHT, LINE_TYPES_CURVE_SMOOTH, LINE_TYPES_CURVE_FULL}"
    by (simp add: LINE_TYPES_STRAIGHT_def LINE_TYPES_CURVE_SMOOTH_def LINE_TYPES_CURVE_FULL_def)
  have a: "angleBetweenPoints 0 0 10 0 = 0" "angleBetweenPoints 0 0 20 0 = 0"
    "angleBetweenPoints 20 0 10 0 = pi"
    by (simp_all add: angleBetweenPoints_def atan2_def)
  note u = unknown_type_falls_back_to_straight [OF h, where other = otherUnknown
        and s = "\<lparr>xCoord = 0, yCoord = 0\<rparr>" and tg = "\<lparr>xCoord = 10, yCoord = 0\<rparr>"
        and B = "[\<lparr>xCoord = 20, yCoord = 0\<rparr>]"
        and sid = "IdString ''a''" and tid = "IdString ''b''" and dir = "Some ''TOP_RIGHT''"]
  have z: "buildLinkPathDefinition otherUnknown \<lparr>xCoord = 0, yCoord = 0\<rparr> \<lparr>xCoord = 10, yCoord = 0\<rparr>
        (Some ''ZIGZAG'') [\<lparr>xCoord = 20, yCoord = 0\<rparr>] (IdString ''a'') (IdString ''b'')
        (Some ''TOP_RIGHT'')
       = Inr ''M0,-3L9,-3 A0,0 0 0,1 0,-3 A0,0 0 0,1 0,3''"
    using u [THEN conjunct2, THEN conjunct2] by (simp add: a Let_def path_text)
  have e: "buildLinkPathDefinition otherUnknown \<lparr>xCoord = 0, yCoord = 0\<rparr> \<lparr>xCoord = 10, yCoord = 0\<rparr>
        (Some LINE_TYPES_STRAIGHT) [\<lparr>xCoord = 20, yCoord = 0\<rparr>] (IdString ''a'') (IdString ''b'')
        (Some ''TOP_RIGHT'')
       = buildLinkPathDefinition otherUnknown \<lparr>xCoord = 0, yCoord = 0\<rparr> \<lparr>xCoord = 10, yCoord = 0\<rparr>
        (Some ''ZIGZAG'') [\<lparr>xCoord = 20, yCoord = 0\<rparr>] (IdString ''a'') (IdString ''b'')
        (Some ''TOP_RIGHT'')"
    using u [THEN conjunct2, THEN conjunct1] by (rule sym)
  show ?thesis unfolding e using h z by (intro conjI)
qed

section \<open>Two nodes at one point\<close>

text \<open>
  Claim C9 requires that a link between two different nodes at the same point never
  fails and returns a degenerate path of length zero. For the nodes \<open>a\<close> and \<open>b\<close> at
  \<open>(100, 100)\<close> the function raises when the direction is left out. When a direction is
  given it returns a move to \<open>(103, 100)\<close>, a line of length zero, and an arc that ends
  at \<open>(3, 0)\<close>, far from where it starts.
\<close>

theorem coincident_link_fails:
  "buildLinkPathDefinition otherUnknown \<lparr>xCoord = 100, yCoord = 100\<rparr> \<lparr>xCoord = 100, yCoord = 100\<rparr>
        (Some ''STRAIGHT'') [] (IdString ''a'') (IdString ''b'') None = Inl TypeError
   \<and> buildLinkPathDefinition otherUnknown \<lparr>xCoord = 100, yCoord = 100\<rparr> \<lparr>xCoord = 100, yCoord = 100\<rparr>
        (Some ''STRAIGHT'') [] (IdString ''a'') (IdString ''b'') (Some ''TOP_RIGHT'')
       = Inr ''M103,100L103,100 A0,0 0 0,1 3,0''
   \<and> linkPath \<lparr>xCoord = 100, yCoord = 100\<rparr> \<lparr>xCoord = 100, yCoord = 100\<rparr> (Some ''STRAIGHT'') []
       = [MoveTo 103 100, LineTo 103 100, ArcTo 0 0 0 False True 3 0]
   \<and> cmdEnd (last (linkPath \<lparr>xCoord = 100, yCoord = 100\<rparr> \<lparr>xCoord = 100, yCoord = 100\<rparr>
        (Some ''STRAIGHT'') [])) = (3, 0)"
proof -
  have p: "linkPath \<lparr>xCoord = 100, yCoord = 100\<rparr> \<lparr>xCoord = 100, yCoord = 100\<rparr> (Some ''STRAIGHT'') []
       = [MoveTo 103 100, LineTo 103 100, ArcTo 0 0 0 False True 3 0]"
    by (simp add: linkPath_commands angleBetweenPoints_same linkArcs_def LINE_POS_OFFSET_def
        calcRadiusFnOf_known straightLineRadius_def)
  show ?thesis
    by (simp add: buildLinkPathDefinition_default buildLinkPathDefinition_text p path_text)
qed

section \<open>The end point of an arc\<close>

text \<open>
  Claim C2 requires the path of a regular link to end at the offset target and every arc
  to end at the offset coordinates of its point. The function writes the offset vector
  itself as the end of every arc: for the link from \<open>(0, 0)\<close> to \<open>(10, 0)\<close> the path
  ends at \<open>(0, -3)\<close>, where the offset target is \<open>(10, -3)\<close>.
\<close>

theorem arc_ends_at_offset_vector:
  "linkPath \<lparr>xCoord = 0, yCoord = 0\<rparr> \<lparr>xCoord = 10, yCoord = 0\<rparr> (Some LINE_TYPES_STRAIGHT) []
     = [MoveTo 0 (- 3), LineTo 9 (- 3), ArcTo 0 0 0 False True 0 (- 3)]
   \<and> buildLinkPathDefinition otherUnknown \<lparr>xCoord = 0, yCoord = 0\<rparr> \<lparr>xCoord = 10, yCoord = 0\<rparr>
      (Some LINE_TYPES_STRAIGHT) [] (IdString ''a'') (IdString ''b'') (Some ''TOP_RIGHT'')
     = Inr ''M0,-3L9,-3 A0,0 0 0,1 0,-3''
   \<and> cmdEnd (last (linkPath \<lparr>xCoord = 0, yCoord = 0\<rparr> \<lparr>xCoord = 10, yCoord = 0\<rparr>
      (Some LINE_TYPES_STRAIGHT) [])) = (0, - 3)
   \<and> (10 + 3 * sin (angleBetweenPoints 0 0 10 0), 0 - 3 * cos (angleBetweenPoints 0 0 10 0)) = (10, - 3)"
proof -
  have ang: "angleBetweenPoints 0 0 10 0 = 0"
    by (simp add: angleBetweenPoints_def atan2_def)
  have p: "linkPath \<lparr>xCoord = 0, yCoord = 0\<rparr> \<lparr>xCoord = 10, yCoord = 0\<rparr> (Some LINE_TYPES_STRAIGHT) []
     = [MoveTo 0 (- 3), LineTo 9 (- 3), ArcTo 0 0 0 False True 0 (- 3)]"
    by (simp add: linkPath_commands ang linkArcs_def LINE_POS_OFFSET_def calcRadiusFnOf_known
        LINE_TYPES_STRAIGHT_def straightLineRadius_def)
  show ?thesis
    by (simp add: buildLinkPathDefinition_text p ang path_text)
qed

end
